theory Spec2Isabelle
  imports Complex_Main
begin

section \<open>The auto-trader edge function (src/unnamed/part\_000)\<close>

text \<open>
  The function file exports three actions; two carry the trading logic:
  \<^verbatim>\<open>executeTrade\<close> (lines 89-241), which calls \<^verbatim>\<open>placeTPSLOrders\<close> (lines 243-283),
  and \<^verbatim>\<open>checkTakeProfitStopLoss\<close> (lines 285-376), which calls \<^verbatim>\<open>executeTrade\<close>.

  Conventions of the embedding.
  \<^item> A JavaScript \<^verbatim>\<open>number\<close> is a \<^typ>\<open>rat\<close>: finite and exact. NaN, the infinities and
    binary rounding are outside the model.
  \<^item> An optional or nullable field is an \<^typ>\<open>'a option\<close>; \<^verbatim>\<open>a || b\<close> and \<^verbatim>\<open>if (a)\<close> follow
    JavaScript truthiness (\<open>0\<close>, the empty string and null are falsy).
  \<^item> A \<^verbatim>\<open>throw\<close> is a left injection; the database, the exchange and the clock are
    fields of a \<open>world\<close> record that is passed in and returned.
  \<^item> Instants are milliseconds since the epoch, as \<^verbatim>\<open>Date.now()\<close> gives them.
\<close>

subsection \<open>Data\<close>

datatype Side = BUY | SELL

datatype OrderType = MARKET | LIMIT

datatype TimeInForce = GTC | IOC | FOK

text \<open>\<^verbatim>\<open>interface TradeSignal\<close>, lines 8-19.\<close>

record TradeSignal =
  symbol :: string
  side :: Side
  quantity :: rat
  price :: "rat option"
  type :: OrderType
  timeInForce :: "TimeInForce option"
  userId :: string
  botId :: "string option"
  stopLossPercent :: "rat option"
  takeProfitPercent :: "rat option"

text \<open>One element of \<^verbatim>\<open>BinanceOrderResponse.fills\<close>, lines 35-40.\<close>

record Fill =
  fill_price :: string
  fill_qty :: string
  fill_commission :: string
  fill_commissionAsset :: string

text \<open>
  \<^verbatim>\<open>interface BinanceOrderResponse\<close>, lines 21-41. The exchange sends decimals as strings.
  \<open>bo_fills\<close> is \<open>None\<close> when the response has no \<^verbatim>\<open>fills\<close> member.
\<close>

record BinanceOrderResponse =
  bo_symbol :: string
  bo_orderId :: int
  bo_clientOrderId :: string
  bo_transactTime :: int
  bo_price :: string
  bo_origQty :: string
  bo_executedQty :: string
  bo_cummulativeQuoteQty :: string
  bo_status :: string
  bo_timeInForce :: string
  bo_type :: string
  bo_side :: string
  bo_fills :: "Fill list option"

text \<open>
  A row of \<^verbatim>\<open>user_settings\<close>, with the columns the function reads. The two flags are
  read through truthiness only, so a null flag is \<open>False\<close> here.
\<close>

record user_settings =
  auto_trading_enabled :: bool
  auto_tp_sl_enabled :: bool
  binance_api_key :: "string option"
  binance_secret_key :: "string option"
  max_daily_trades :: int
  max_position_size :: rat
  default_stop_loss_percent :: rat
  default_take_profit_percent :: rat

text \<open>The object \<^verbatim>\<open>orderData\<close> of lines 184-202, field for field.\<close>

record orderData =
  o_user_id :: string
  o_bot_id :: "string option"
  o_symbol :: string
  o_side :: string
  o_type :: string
  o_quantity :: rat
  o_price :: "rat option"
  o_filled_quantity :: rat
  o_avg_fill_price :: "rat option"
  o_status :: string
  o_order_id :: string
  o_time_in_force :: string
  o_commission :: rat
  o_executed_at :: "nat option"
  o_stop_loss_price :: "rat option"
  o_take_profit_price :: "rat option"
  o_auto_tp_sl_enabled :: bool

text \<open>
  A stored row of \<^verbatim>\<open>orders\<close>: the inserted object with the two columns the database
  fills in itself.
\<close>

record order_row =
  row_id :: nat
  created_at :: nat
  row_data :: orderData

datatype error = Error string | TypeError string | SyntaxError string

fun message :: "error \<Rightarrow> string" where
  "message (Error m) = m"
| "message (TypeError m) = m"
| "message (SyntaxError m) = m"

text \<open>What \<^verbatim>\<open>fetch\<close> gives back for an order submission.\<close>

record http_response =
  ok :: bool
  status :: nat
  body_text :: string
  json :: "BinanceOrderResponse option"

datatype fetch_result = FetchThrows string | Responded http_response

text \<open>
  What reading the ticker gives: the request or the JSON decoding throws, the decoded
  object has no \<^verbatim>\<open>price\<close> member (then \<^verbatim>\<open>parseFloat\<close> yields NaN and every comparison
  of lines 327-338 is false), or it has one.
\<close>

datatype ticker_result = TickerThrows string | TickerNoPrice | TickerPrice string

datatype net_call = OrderPost string string | TickerGet string

text \<open>
  Library functions the file calls and does not define: \<^verbatim>\<open>createHmac('sha256', key)
  .update(msg).digest('hex')\<close>, the rendering of a number inside a template literal (and
  \<^verbatim>\<open>toString()\<close>), and \<^verbatim>\<open>parseFloat\<close> on a decimal string. They are parameters.
\<close>

record platform =
  hmac_sha256_hex :: "string \<Rightarrow> string \<Rightarrow> string"
  number_toString :: "rat \<Rightarrow> string"
  parseFloat :: "string \<Rightarrow> rat"

text \<open>
  Everything outside the function. \<open>settings_of\<close> is the outcome of the
  \<^verbatim>\<open>.single()\<close> query on \<^verbatim>\<open>user_settings\<close> (\<open>None\<close>: an error or no row);
  \<open>orders\<close> is the ledger table; the three failure fields say whether a query comes
  back with an error; \<open>binance_order\<close> answers a POST to \<^verbatim>\<open>/api/v3/order\<close> by its
  body and \<open>ticker_price\<close> a GET of \<^verbatim>\<open>/api/v3/ticker/price\<close> by its symbol. \<open>calls\<close>
  records every request sent to the exchange and \<open>logs\<close> every console line.
\<close>

record world =
  settings_of :: "string \<Rightarrow> user_settings option"
  orders :: "order_row list"
  today_select_fails :: bool
  positions_select_fails :: bool
  insert_fails :: "orderData \<Rightarrow> bool"
  now :: nat
  binance_order :: "string \<Rightarrow> fetch_result"
  ticker_price :: "string \<Rightarrow> ticker_result"
  calls :: "net_call list"
  logs :: "string list"

text \<open>The JSON that \<^verbatim>\<open>executeTrade\<close> returns, lines 225-233.\<close>

record trade_response =
  success :: bool
  order :: order_row
  binanceOrder :: BinanceOrderResponse
  tpSlEnabled :: bool
  stopLossPrice :: "rat option"
  takeProfitPrice :: "rat option"

subsection \<open>JavaScript idioms\<close>

definition truthy :: "rat option \<Rightarrow> bool" where
  "truthy x = (case x of None \<Rightarrow> False | Some v \<Rightarrow> v \<noteq> 0)"

text \<open>\<^verbatim>\<open>x || d\<close> on an optional number.\<close>

definition or_else :: "rat option \<Rightarrow> rat \<Rightarrow> rat" where
  "or_else x d = (case x of None \<Rightarrow> d | Some v \<Rightarrow> if v = 0 then d else v)"

text \<open>\<^verbatim>\<open>!x\<close> on a nullable string.\<close>

definition falsy_str :: "string option \<Rightarrow> bool" where
  "falsy_str x = (case x of None \<Rightarrow> True | Some s \<Rightarrow> s = [])"

text \<open>\<^verbatim>\<open>toLowerCase\<close> on the letters A-Z; every other character is left as it is.\<close>

definition lower_char :: "char \<Rightarrow> char" where
  "lower_char c =
     (case map_of (zip ''ABCDEFGHIJKLMNOPQRSTUVWXYZ'' ''abcdefghijklmnopqrstuvwxyz'') c of
        Some l \<Rightarrow> l
      | None \<Rightarrow> c)"

definition toLowerCase :: "string \<Rightarrow> string" where
  "toLowerCase s = map lower_char s"

fun side_str :: "Side \<Rightarrow> string" where
  "side_str BUY = ''BUY''"
| "side_str SELL = ''SELL''"

fun type_str :: "OrderType \<Rightarrow> string" where
  "type_str MARKET = ''MARKET''"
| "type_str LIMIT = ''LIMIT''"

definition console :: "string \<Rightarrow> world \<Rightarrow> world" where
  "console line w = w\<lparr>logs := logs w @ [line]\<rparr>"

definition send :: "net_call \<Rightarrow> world \<Rightarrow> world" where
  "send c w = w\<lparr>calls := calls w @ [c]\<rparr>"

subsection \<open>The daily window, lines 112-118\<close>

definition ms_per_day :: nat where
  "ms_per_day = 86400000"

text \<open>
  \<^verbatim>\<open>today\<close> is the UTC date of the clock; the two bounds are the instants that the
  strings \<^verbatim>\<open>${today}T00:00:00.000Z\<close> and \<^verbatim>\<open>${today}T23:59:59.999Z\<close> denote.
\<close>

definition today_start :: "nat \<Rightarrow> nat" where
  "today_start t = (t div ms_per_day) * ms_per_day"

definition today_gte_bound :: "nat \<Rightarrow> nat" where
  "today_gte_bound t = today_start t"

definition today_lt_bound :: "nat \<Rightarrow> nat" where
  "today_lt_bound t = today_start t + 86399999"

text \<open>The rows that the filters of lines 116-118 select.\<close>

definition today_rows :: "world \<Rightarrow> string \<Rightarrow> order_row list" where
  "today_rows w uid =
     filter (\<lambda>r. o_user_id (row_data r) = uid
                  \<and> today_gte_bound (now w) \<le> created_at r
                  \<and> created_at r < today_lt_bound (now w)) (orders w)"

text \<open>
  The query of lines 113-118: \<open>None\<close> stands for \<^verbatim>\<open>data: null\<close>, which is what the
  client returns together with an error.
\<close>

definition todayTrades :: "world \<Rightarrow> string \<Rightarrow> order_row list option" where
  "todayTrades w uid = (if today_select_fails w then None else Some (today_rows w uid))"

subsection \<open>The order request, lines 134-154\<close>

text \<open>The template literal of line 136.\<close>

definition queryString :: "platform \<Rightarrow> TradeSignal \<Rightarrow> nat \<Rightarrow> string" where
  "queryString P signal timestamp =
     ''symbol='' @ symbol signal @ ''&side='' @ side_str (side signal)
       @ ''&type='' @ type_str (type signal)
       @ ''&quantity='' @ number_toString P (quantity signal)
       @ ''&timestamp='' @ number_toString P (of_nat timestamp)"

text \<open>The body of line 153.\<close>

definition order_body :: "platform \<Rightarrow> string \<Rightarrow> string \<Rightarrow> string" where
  "order_body P secret qs = qs @ ''&signature='' @ hmac_sha256_hex P secret qs"

subsection \<open>Protective prices, lines 165-181\<close>

definition protective_prices ::
  "platform \<Rightarrow> user_settings \<Rightarrow> TradeSignal \<Rightarrow> BinanceOrderResponse \<Rightarrow> rat option \<times> rat option" where
  "protective_prices P userSettings signal bo =
     (case bo_fills bo of
        Some (f # fs) \<Rightarrow>
          if auto_tp_sl_enabled userSettings then
            (let avgPrice = parseFloat P (fill_price f);
                 slPercent = or_else (stopLossPercent signal) (default_stop_loss_percent userSettings);
                 tpPercent = or_else (takeProfitPercent signal) (default_take_profit_percent userSettings)
             in if side signal = BUY
                then (Some (avgPrice * (1 - slPercent / 100)), Some (avgPrice * (1 + tpPercent / 100)))
                else (Some (avgPrice * (1 + slPercent / 100)), Some (avgPrice * (1 - tpPercent / 100))))
          else (None, None)
      | _ \<Rightarrow> (None, None))"

subsection \<open>The ledger row, lines 183-202\<close>

definition first_fill :: "BinanceOrderResponse \<Rightarrow> Fill option" where
  "first_fill bo = (case bo_fills bo of Some (f # fs) \<Rightarrow> Some f | _ \<Rightarrow> None)"

definition make_orderData ::
  "platform \<Rightarrow> nat \<Rightarrow> user_settings \<Rightarrow> TradeSignal \<Rightarrow> BinanceOrderResponse
     \<Rightarrow> rat option \<Rightarrow> rat option \<Rightarrow> orderData" where
  "make_orderData P clock userSettings signal bo sl tp =
     \<lparr> o_user_id = userId signal,
       o_bot_id = botId signal,
       o_symbol = bo_symbol bo,
       o_side = bo_side bo,
       o_type = bo_type bo,
       o_quantity = parseFloat P (bo_origQty bo),
       o_price = (if bo_price bo \<noteq> [] then Some (parseFloat P (bo_price bo)) else None),
       o_filled_quantity = parseFloat P (bo_executedQty bo),
       o_avg_fill_price = map_option (\<lambda>f. parseFloat P (fill_price f)) (first_fill bo),
       o_status = toLowerCase (bo_status bo),
       o_order_id = number_toString P (of_int (bo_orderId bo)),
       o_time_in_force = bo_timeInForce bo,
       o_commission = (case first_fill bo of Some f \<Rightarrow> parseFloat P (fill_commission f) | None \<Rightarrow> 0),
       o_executed_at = (if bo_status bo = ''FILLED'' then Some clock else None),
       o_stop_loss_price = sl,
       o_take_profit_price = tp,
       o_auto_tp_sl_enabled = auto_tp_sl_enabled userSettings \<rparr>"

subsection \<open>placeTPSLOrders, lines 243-283\<close>

definition opposite_str :: "string \<Rightarrow> string" where
  "opposite_str originalSide = (if originalSide = ''BUY'' then ''SELL'' else ''BUY'')"

definition tpQueryString :: "platform \<Rightarrow> BinanceOrderResponse \<Rightarrow> rat \<Rightarrow> nat \<Rightarrow> string" where
  "tpQueryString P originalOrder tpPrice tpTimestamp =
     ''symbol='' @ bo_symbol originalOrder @ ''&side='' @ opposite_str (bo_side originalOrder)
       @ ''&type=LIMIT&quantity='' @ bo_executedQty originalOrder
       @ ''&price='' @ number_toString P tpPrice
       @ ''&timeInForce=GTC&timestamp='' @ number_toString P (of_nat tpTimestamp)"

definition slQueryString :: "platform \<Rightarrow> BinanceOrderResponse \<Rightarrow> rat \<Rightarrow> nat \<Rightarrow> string" where
  "slQueryString P originalOrder slPrice slTimestamp =
     ''symbol='' @ bo_symbol originalOrder @ ''&side='' @ opposite_str (bo_side originalOrder)
       @ ''&type=STOP_MARKET&quantity='' @ bo_executedQty originalOrder
       @ ''&stopPrice='' @ number_toString P slPrice
       @ ''&timestamp='' @ number_toString P (of_nat slTimestamp)"

text \<open>
  The two requests are awaited one after the other and their responses are not looked
  at; only a \<^verbatim>\<open>fetch\<close> that throws ends the function early.
\<close>

definition placeTPSLOrders ::
  "platform \<Rightarrow> world \<Rightarrow> string \<Rightarrow> string \<Rightarrow> BinanceOrderResponse \<Rightarrow> rat \<Rightarrow> rat
     \<Rightarrow> (error + unit) \<times> world" where
  "placeTPSLOrders P w apiKey secret originalOrder slPrice tpPrice =
     (let tpBody = order_body P secret (tpQueryString P originalOrder tpPrice (now w));
          w1 = send (OrderPost apiKey tpBody) w
      in case binance_order w tpBody of
           FetchThrows m \<Rightarrow> (Inl (Error m), w1)
         | Responded r1 \<Rightarrow>
             (let slBody = order_body P secret (slQueryString P originalOrder slPrice (now w));
                  w2 = send (OrderPost apiKey slBody) w1
              in case binance_order w slBody of
                   FetchThrows m \<Rightarrow> (Inl (Error m), w2)
                 | Responded r2 \<Rightarrow> (Inr (), w2)))"

subsection \<open>executeTrade, lines 89-241\<close>

text \<open>
  Lines 165-241: what happens once the exchange has accepted the order. The condition
  of line 216 reads the two prices through truthiness: null and \<open>0\<close> are falsy.
\<close>

definition record_order ::
  "platform \<Rightarrow> world \<Rightarrow> user_settings \<Rightarrow> string \<Rightarrow> string \<Rightarrow> TradeSignal \<Rightarrow> BinanceOrderResponse
     \<Rightarrow> (error + trade_response) \<times> world" where
  "record_order P w userSettings apiKey secret signal bo =
     (let (sl, tp) = protective_prices P userSettings signal bo;
          od = make_orderData P (now w) userSettings signal bo sl tp
      in if insert_fails w od
         then (Inl (Error ''Failed to save order to database''), console ''Error saving order:'' w)
         else
           (let savedOrder = \<lparr> row_id = length (orders w), created_at = now w, row_data = od \<rparr>;
                w1 = w\<lparr>orders := orders w @ [savedOrder]\<rparr>;
                w2 = (case (sl, tp) of
                        (Some slPrice, Some tpPrice) \<Rightarrow>
                          if auto_tp_sl_enabled userSettings \<and> bo_status bo = ''FILLED''
                             \<and> slPrice \<noteq> 0 \<and> tpPrice \<noteq> 0
                          then (case placeTPSLOrders P w1 apiKey secret bo slPrice tpPrice of
                                  (Inl tpslError, w') \<Rightarrow> console ''Error placing TP/SL orders:'' w'
                                | (Inr u, w') \<Rightarrow> w')
                          else w1
                      | _ \<Rightarrow> w1)
            in (Inr \<lparr> success = True, order = savedOrder, binanceOrder = bo,
                      tpSlEnabled = auto_tp_sl_enabled userSettings,
                      stopLossPrice = sl, takeProfitPrice = tp \<rparr>, w2)))"

text \<open>
  Lines 134-163. \<^verbatim>\<open>queryString\<close> is declared with \<^verbatim>\<open>const\<close> on line 136, and line 139
  assigns to it with \<^verbatim>\<open>+=\<close>: executing that statement throws a TypeError, so the branch
  of line 138 ends the call before the signature of line 142 is computed.
\<close>

definition submit_order ::
  "platform \<Rightarrow> world \<Rightarrow> user_settings \<Rightarrow> string \<Rightarrow> string \<Rightarrow> TradeSignal
     \<Rightarrow> (error + trade_response) \<times> world" where
  "submit_order P w userSettings apiKey secret signal =
     (let timestamp = now w;
          qs = queryString P signal timestamp
      in if truthy (price signal) \<and> type signal = LIMIT
         then (Inl (TypeError ''Assignment to constant variable.''), w)
         else
           (let body = order_body P secret qs;
                w1 = send (OrderPost apiKey body) w
            in case binance_order w body of
                 FetchThrows m \<Rightarrow> (Inl (Error m), w1)
               | Responded resp \<Rightarrow>
                   if \<not> ok resp
                   then (Inl (Error (''Binance API error: '' @ number_toString P (of_nat (status resp))
                                      @ '' '' @ body_text resp)),
                         console ''Binance API error:'' w1)
                   else (case json resp of
                           None \<Rightarrow> (Inl (SyntaxError ''Unexpected token''), w1)
                         | Some bo \<Rightarrow>
                             record_order P (console ''Binance order response:'' w1)
                               userSettings apiKey secret signal bo)))"

definition executeTrade ::
  "platform \<Rightarrow> world \<Rightarrow> TradeSignal \<Rightarrow> (error + trade_response) \<times> world" where
  "executeTrade P w0 signal =
     (let w = console ''Executing trade signal:'' w0
      in case settings_of w (userId signal) of
           None \<Rightarrow> (Inl (Error ''User settings not found''), w)
         | Some userSettings \<Rightarrow>
             if \<not> auto_trading_enabled userSettings
             then (Inl (Error ''Auto trading is disabled for this user''), w)
             else if falsy_str (binance_api_key userSettings)
                     \<or> falsy_str (binance_secret_key userSettings)
             then (Inl (Error ''Binance API credentials not configured''), w)
             else
               (let w1 = (if today_select_fails w
                          then console ''Error checking daily trades:'' w else w)
                in if (case todayTrades w (userId signal) of
                         None \<Rightarrow> False
                       | Some rows \<Rightarrow> int (length rows) \<ge> max_daily_trades userSettings)
                   then (Inl (Error ''Daily trade limit reached''), w1)
                   else if quantity signal * or_else (price signal) 0 > max_position_size userSettings
                   then (Inl (Error ''Trade size exceeds maximum position size''), w1)
                   else submit_order P w1 userSettings
                          (case binance_api_key userSettings of Some k \<Rightarrow> k | None \<Rightarrow> [])
                          (case binance_secret_key userSettings of Some k \<Rightarrow> k | None \<Rightarrow> [])
                          signal))"

subsection \<open>checkTakeProfitStopLoss, lines 285-376\<close>

datatype TriggerType = STOP_LOSS | TAKE_PROFIT

text \<open>A relational comparison reads a null column as \<open>0\<close>.\<close>

definition null_num :: "rat option \<Rightarrow> rat" where
  "null_num x = (case x of None \<Rightarrow> 0 | Some v \<Rightarrow> v)"

text \<open>
  Lines 322-342: \<^verbatim>\<open>shouldTrigger\<close> and \<^verbatim>\<open>triggerType\<close> together; \<open>None\<close> is
  \<^verbatim>\<open>shouldTrigger = false\<close>.
\<close>

definition trigger_of :: "order_row \<Rightarrow> rat \<Rightarrow> TriggerType option" where
  "trigger_of position currentPrice =
     (if o_side (row_data position) = ''BUY'' then
        (if currentPrice \<le> null_num (o_stop_loss_price (row_data position)) then Some STOP_LOSS
         else if currentPrice \<ge> null_num (o_take_profit_price (row_data position)) then Some TAKE_PROFIT
         else None)
      else
        (if currentPrice \<ge> null_num (o_stop_loss_price (row_data position)) then Some STOP_LOSS
         else if currentPrice \<le> null_num (o_take_profit_price (row_data position)) then Some TAKE_PROFIT
         else None))"

text \<open>The query of lines 301-308.\<close>

definition open_positions :: "world \<Rightarrow> string \<Rightarrow> order_row list" where
  "open_positions w uid =
     filter (\<lambda>r. o_user_id (row_data r) = uid
                  \<and> o_status (row_data r) = ''filled''
                  \<and> o_auto_tp_sl_enabled (row_data r)
                  \<and> o_stop_loss_price (row_data r) \<noteq> None
                  \<and> o_take_profit_price (row_data r) \<noteq> None) (orders w)"

text \<open>The object \<^verbatim>\<open>closeSignal\<close> of lines 346-353; the members it leaves out are absent.\<close>

definition closeSignal :: "order_row \<Rightarrow> string \<Rightarrow> TradeSignal" where
  "closeSignal position uid =
     \<lparr> symbol = o_symbol (row_data position),
       side = (if o_side (row_data position) = ''BUY'' then SELL else BUY),
       quantity = o_filled_quantity (row_data position),
       price = None,
       type = MARKET,
       timeInForce = None,
       userId = uid,
       botId = o_bot_id (row_data position),
       stopLossPercent = None,
       takeProfitPercent = None \<rparr>"

text \<open>An element of \<^verbatim>\<open>results\<close>: the object of lines 356-361 or the one of lines 365-368.\<close>

datatype outcome = Closed nat TriggerType rat trade_response | Failed nat string

text \<open>The body of the loop, lines 316-369, for one position.\<close>

definition process_position ::
  "platform \<Rightarrow> world \<Rightarrow> string \<Rightarrow> order_row \<Rightarrow> outcome option \<times> world" where
  "process_position P w uid position =
     (let w1 = send (TickerGet (o_symbol (row_data position))) w
      in case ticker_price w (o_symbol (row_data position)) of
           TickerThrows m \<Rightarrow>
             (Some (Failed (row_id position) m), console ''Error processing position'' w1)
         | TickerNoPrice \<Rightarrow> (None, w1)
         | TickerPrice p \<Rightarrow>
             (let currentPrice = parseFloat P p
              in case trigger_of position currentPrice of
                   None \<Rightarrow> (None, w1)
                 | Some triggerType \<Rightarrow>
                     (case executeTrade P w1 (closeSignal position uid) of
                        (Inl e, w2) \<Rightarrow>
                          (Some (Failed (row_id position) (message e)),
                           console ''Error processing position'' w2)
                      | (Inr closeResult, w2) \<Rightarrow>
                          (Some (Closed (row_id position) triggerType currentPrice closeResult), w2))))"

text \<open>The loop of line 315 over the rows fetched before it starts.\<close>

fun process_positions ::
  "platform \<Rightarrow> world \<Rightarrow> string \<Rightarrow> order_row list \<Rightarrow> outcome list \<times> world" where
  "process_positions P w uid [] = ([], w)"
| "process_positions P w uid (position # rest) =
     (case process_position P w uid position of
        (r, w1) \<Rightarrow>
          (case process_positions P w1 uid rest of
             (rs, w2) \<Rightarrow> ((case r of None \<Rightarrow> rs | Some x \<Rightarrow> x # rs), w2)))"

datatype check_response = NotEnabled | Results "outcome list"

definition checkTakeProfitStopLoss ::
  "platform \<Rightarrow> world \<Rightarrow> string \<Rightarrow> (error + check_response) \<times> world" where
  "checkTakeProfitStopLoss P w uid =
     (case settings_of w uid of
        None \<Rightarrow> (Inr NotEnabled, w)
      | Some userSettings \<Rightarrow>
          if \<not> auto_tp_sl_enabled userSettings then (Inr NotEnabled, w)
          else if positions_select_fails w then (Inl (Error ''Failed to fetch positions''), w)
          else (case process_positions P w uid (open_positions w uid) of
                  (results, w') \<Rightarrow> (Inr (Results results), w')))"

section \<open>The specification's formulas\<close>

text \<open>
  Section 4.1, step 6 of the specification: the protective levels for a side, a
  reference price and the two percentages.
\<close>

definition spec_protective_levels ::
  "Side \<Rightarrow> rat \<Rightarrow> rat \<Rightarrow> rat \<Rightarrow> rat option \<times> rat option" where
  "spec_protective_levels sd avgPrice slPct tpPct =
     (case sd of
        BUY \<Rightarrow> (Some (avgPrice * (1 - slPct / 100)), Some (avgPrice * (1 + tpPct / 100)))
      | SELL \<Rightarrow> (Some (avgPrice * (1 + slPct / 100)), Some (avgPrice * (1 - tpPct / 100))))"

text \<open>Section 4.3, step 4 of the specification: which exit a price triggers.\<close>

definition spec_trigger :: "Side \<Rightarrow> rat \<Rightarrow> rat \<Rightarrow> rat \<Rightarrow> TriggerType option" where
  "spec_trigger originalSide currentPrice stopLoss takeProfit =
     (case originalSide of
        BUY \<Rightarrow> (if currentPrice \<le> stopLoss then Some STOP_LOSS
                else if currentPrice \<ge> takeProfit then Some TAKE_PROFIT else None)
      | SELL \<Rightarrow> (if currentPrice \<ge> stopLoss then Some STOP_LOSS
                 else if currentPrice \<le> takeProfit then Some TAKE_PROFIT else None))"

text \<open>
  What the monitor reports for a position when the closing trade is refused with the
  message \<open>msg\<close>: nothing when no exit triggers, a failure otherwise.
\<close>

definition refused_outcome :: "platform \<Rightarrow> world \<Rightarrow> string \<Rightarrow> order_row \<Rightarrow> outcome option" where
  "refused_outcome P w msg position =
     (case ticker_price w (o_symbol (row_data position)) of
        TickerThrows m \<Rightarrow> Some (Failed (row_id position) m)
      | TickerNoPrice \<Rightarrow> None
      | TickerPrice p \<Rightarrow>
          (case trigger_of position (parseFloat P p) of
             None \<Rightarrow> None
           | Some t \<Rightarrow> Some (Failed (row_id position) msg)))"

text \<open>Two worlds that differ in their traces only.\<close>

definition same_db :: "world \<Rightarrow> world \<Rightarrow> bool" where
  "same_db w w' =
     (settings_of w' = settings_of w \<and> orders w' = orders w
      \<and> today_select_fails w' = today_select_fails w \<and> now w' = now w
      \<and> ticker_price w' = ticker_price w)"

section \<open>Concrete inputs\<close>

text \<open>
  A platform for running the functions on examples: numbers are rendered and read as
  decimal naturals, and the signature is a transparent stand-in that shows its key and
  its message.
\<close>

function decimal :: "nat \<Rightarrow> string" where
  "decimal n =
     (if n < 10 then [''0123456789'' ! n]
      else decimal (n div 10) @ [''0123456789'' ! (n mod 10)])"
  by pat_completeness auto
termination
  by (relation "measure id") auto

declare decimal.simps [simp del]

definition digits_value :: "string \<Rightarrow> nat" where
  "digits_value s = foldl (\<lambda>a c. 10 * a + (of_char c - 48)) 0 s"

definition demo_platform :: platform where
  "demo_platform =
     \<lparr> hmac_sha256_hex = (\<lambda>key msg. ''hmac('' @ key @ '','' @ msg @ '')''),
       number_toString = (\<lambda>q. decimal (nat \<lfloor>q\<rfloor>)),
       parseFloat = (\<lambda>s. of_nat (digits_value s)) \<rparr>"

definition demo_settings :: user_settings where
  "demo_settings =
     \<lparr> auto_trading_enabled = True, auto_tp_sl_enabled = True,
       binance_api_key = Some ''key'', binance_secret_key = Some ''secret'',
       max_daily_trades = 1, max_position_size = 1000,
       default_stop_loss_percent = 5, default_take_profit_percent = 10 \<rparr>"

definition demo_fill :: Fill where
  "demo_fill =
     \<lparr> fill_price = ''100'', fill_qty = ''1'', fill_commission = ''0'',
       fill_commissionAsset = ''BNB'' \<rparr>"

definition demo_filled :: BinanceOrderResponse where
  "demo_filled =
     \<lparr> bo_symbol = ''BTCUSDT'', bo_orderId = 28, bo_clientOrderId = ''c1'',
       bo_transactTime = 86399999, bo_price = ''0'', bo_origQty = ''1'',
       bo_executedQty = ''1'', bo_cummulativeQuoteQty = ''100'', bo_status = ''FILLED'',
       bo_timeInForce = ''GTC'', bo_type = ''MARKET'', bo_side = ''BUY'',
       bo_fills = Some [demo_fill] \<rparr>"

text \<open>An exchange that accepts every order with the given result.\<close>

definition demo_accept :: "BinanceOrderResponse \<Rightarrow> string \<Rightarrow> fetch_result" where
  "demo_accept bo body =
     Responded \<lparr> ok = True, status = 200, body_text = [], json = Some bo \<rparr>"

text \<open>An exchange that rejects every order.\<close>

definition demo_reject :: "string \<Rightarrow> fetch_result" where
  "demo_reject body =
     Responded \<lparr> ok = False, status = 400, body_text = ''Filter failure: LOT_SIZE'',
                 json = None \<rparr>"

text \<open>
  A world at the last millisecond of the first UTC day, with one user \<open>u1\<close>, the given
  settings row and the given ledger.
\<close>

definition demo_world :: "user_settings \<Rightarrow> order_row list \<Rightarrow> world" where
  "demo_world us rows =
     \<lparr> settings_of = (\<lambda>u. if u = ''u1'' then Some us else None),
       orders = rows, today_select_fails = False, positions_select_fails = False,
       insert_fails = (\<lambda>od. False), now = 86399999,
       binance_order = demo_accept demo_filled,
       ticker_price = (\<lambda>sym. TickerPrice ''90''),
       calls = [], logs = [] \<rparr>"

definition demo_signal :: TradeSignal where
  "demo_signal =
     \<lparr> symbol = ''BTCUSDT'', side = BUY, quantity = 1, price = None, type = MARKET,
       timeInForce = None, userId = ''u1'', botId = None,
       stopLossPercent = None, takeProfitPercent = None \<rparr>"

text \<open>A filled, protected BUY of user \<open>u1\<close>, stored at the given instant.\<close>

definition demo_row :: "nat \<Rightarrow> order_row" where
  "demo_row t =
     \<lparr> row_id = 0, created_at = t,
       row_data =
         \<lparr> o_user_id = ''u1'', o_bot_id = None, o_symbol = ''BTCUSDT'', o_side = ''BUY'',
           o_type = ''MARKET'', o_quantity = 1, o_price = None, o_filled_quantity = 1,
           o_avg_fill_price = Some 100, o_status = ''filled'', o_order_id = ''27'',
           o_time_in_force = ''GTC'', o_commission = 0, o_executed_at = Some t,
           o_stop_loss_price = Some 95, o_take_profit_price = Some 110,
           o_auto_tp_sl_enabled = True \<rparr> \<rparr>"

text \<open>The result of an order that the exchange has accepted and not yet filled.\<close>

definition demo_new :: BinanceOrderResponse where
  "demo_new = demo_filled\<lparr> bo_status := ''NEW'', bo_executedQty := ''0'', bo_fills := None \<rparr>"

definition demo_world_unfilled :: world where
  "demo_world_unfilled = (demo_world demo_settings [])\<lparr> binance_order := demo_accept demo_new \<rparr>"

definition demo_world_rejecting :: world where
  "demo_world_rejecting = (demo_world demo_settings [])\<lparr> binance_order := demo_reject \<rparr>"

text \<open>
  The user has reached the cap of one trade for today, and the query that counts
  today's orders comes back with an error.
\<close>

definition demo_world_count_fails :: world where
  "demo_world_count_fails =
     (demo_world demo_settings [demo_row 5000])\<lparr> today_select_fails := True \<rparr>"

text \<open>Protection is on and auto trading is off; one protected position is open.\<close>

definition demo_settings_trading_off :: user_settings where
  "demo_settings_trading_off = demo_settings\<lparr> auto_trading_enabled := False \<rparr>"

definition demo_world_trading_off :: world where
  "demo_world_trading_off = demo_world demo_settings_trading_off [demo_row 5000]"

lemmas demo_defs = demo_platform_def demo_settings_def demo_fill_def demo_filled_def
  demo_accept_def demo_reject_def demo_world_def demo_signal_def demo_row_def
  demo_new_def demo_world_unfilled_def demo_world_rejecting_def demo_world_count_fails_def
  demo_settings_trading_off_def demo_world_trading_off_def

lemmas eval_defs = executeTrade_def submit_order_def record_order_def placeTPSLOrders_def
  protective_prices_def make_orderData_def first_fill_def queryString_def order_body_def
  tpQueryString_def slQueryString_def opposite_str_def todayTrades_def today_rows_def
  today_gte_bound_def today_lt_bound_def today_start_def ms_per_day_def
  truthy_def falsy_str_def or_else_def console_def send_def toLowerCase_def lower_char_def
  digits_value_def decimal.simps Let_def

section \<open>Properties of executeTrade\<close>

subsection \<open>Passing the checks of lines 93-132\<close>

lemma executeTrade_guards_pass:
  assumes "settings_of w (userId signal) = Some us"
    and "auto_trading_enabled us"
    and "binance_api_key us = Some apiKey" and "apiKey \<noteq> []"
    and "binance_secret_key us = Some secret" and "secret \<noteq> []"
    and "today_select_fails w \<or> int (length (today_rows w (userId signal))) < max_daily_trades us"
    and "quantity signal * or_else (price signal) 0 \<le> max_position_size us"
  shows "executeTrade P w signal =
           submit_order P
             (if today_select_fails w
              then console ''Error checking daily trades:'' (console ''Executing trade signal:'' w)
              else console ''Executing trade signal:'' w)
             us apiKey secret signal"
  using assms
  by (auto simp add: executeTrade_def console_def falsy_str_def todayTrades_def today_rows_def)

lemma limit_with_price_throws:
  assumes "type signal = LIMIT" and "truthy (price signal)"
  shows "submit_order P w us k s signal
           = (Inl (TypeError ''Assignment to constant variable.''), w)"
  using assms by (simp add: submit_order_def)

subsection \<open>What the later stages leave alone\<close>

lemma placeTPSLOrders_frame:
  assumes "placeTPSLOrders P w k s bo sl tp = (r, w')"
  shows "orders w' = orders w" and "logs w' = logs w" and "\<exists>rest. calls w' = calls w @ rest"
  using assms
  by (auto simp add: placeTPSLOrders_def send_def Let_def split: fetch_result.splits)

lemma record_order_calls:
  "\<exists>rest. calls (snd (record_order P w us k s signal bo)) = calls w @ rest"
  by (auto simp add: record_order_def console_def Let_def
        split: option.splits prod.splits sum.splits
        dest!: placeTPSLOrders_frame(3))

lemma record_order_logs:
  "set (logs w) \<subseteq> set (logs (snd (record_order P w us k s signal bo)))"
  by (auto simp add: record_order_def console_def Let_def
        split: option.splits prod.splits sum.splits
        dest!: placeTPSLOrders_frame(2))

lemma submit_order_calls:
  assumes "\<not> (truthy (price signal) \<and> type signal = LIMIT)"
  shows "\<exists>rest. calls (snd (submit_order P w us k s signal))
           = calls w @ OrderPost k (order_body P s (queryString P signal (now w))) # rest"
proof -
  let ?body = "order_body P s (queryString P signal (now w))"
  let ?w1 = "send (OrderPost k ?body) w"
  have "\<exists>rest. calls (snd (record_order P (console ''Binance order response:'' ?w1) us k s signal bo))
          = calls w @ OrderPost k ?body # rest" for bo
    using record_order_calls [of P "console ''Binance order response:'' ?w1" us k s signal bo]
    by (simp add: console_def send_def)
  then show ?thesis
    using assms
    by (auto simp add: submit_order_def Let_def console_def send_def
          split: fetch_result.splits option.splits)
qed

lemma submit_order_logs:
  "set (logs w) \<subseteq> set (logs (snd (submit_order P w us k s signal)))"
proof -
  let ?body = "order_body P s (queryString P signal (now w))"
  let ?w1 = "send (OrderPost k ?body) w"
  have "set (logs w)
          \<subseteq> set (logs (snd (record_order P (console ''Binance order response:'' ?w1) us k s signal bo)))"
    for bo
    using record_order_logs [of "console ''Binance order response:'' ?w1" P us k s signal bo]
    by (simp add: console_def send_def)
  then show ?thesis
    by (auto simp add: submit_order_def Let_def console_def send_def
          split: fetch_result.splits option.splits)
qed


subsection \<open>LIMIT orders\<close>

text \<open>
  Claim C1 says that a LIMIT request with a price is signed and submitted with the
  parameters in the order symbol, side, type, quantity, price, timeInForce, timestamp.
  On the code, such a request that has passed every earlier check (here: quantity 1 at price 100,
  below the position cap of 1000, no order yet today) ends in the TypeError of line 139:
  nothing is sent to the exchange and nothing is stored.
\<close>

theorem C1_limit_order_faults:
  "executeTrade demo_platform (demo_world demo_settings [])
       (demo_signal\<lparr>type := LIMIT, price := Some 100\<rparr>)
     = (Inl (TypeError ''Assignment to constant variable.''),
        console ''Executing trade signal:'' (demo_world demo_settings []))
   \<and> calls (snd (executeTrade demo_platform (demo_world demo_settings [])
                    (demo_signal\<lparr>type := LIMIT, price := Some 100\<rparr>))) = []
   \<and> orders (snd (executeTrade demo_platform (demo_world demo_settings [])
                     (demo_signal\<lparr>type := LIMIT, price := Some 100\<rparr>))) = []"
  by (simp add: executeTrade_def limit_with_price_throws demo_defs console_def truthy_def
        falsy_str_def todayTrades_def today_rows_def or_else_def)

subsection \<open>The daily window\<close>

text \<open>
  Claim C2 says that the daily count covers the whole UTC day, the final millisecond
  included. On the code, a user whose cap is one trade and who has one order stored in
  the final millisecond of the current day (instant 86399999 of a day that starts at 0
  and ends before 86400000) is counted as having none: the query selects no row and the
  new order is submitted and stored.
\<close>

theorem C2_last_millisecond_not_counted:
  "today_start (now (demo_world (demo_settings\<lparr>auto_tp_sl_enabled := False\<rparr>) [demo_row 86399999]))
     \<le> created_at (demo_row 86399999)
   \<and> created_at (demo_row 86399999)
     < today_start (now (demo_world (demo_settings\<lparr>auto_tp_sl_enabled := False\<rparr>) [demo_row 86399999]))
       + ms_per_day
   \<and> o_user_id (row_data (demo_row 86399999)) = userId demo_signal
   \<and> max_daily_trades (demo_settings\<lparr>auto_tp_sl_enabled := False\<rparr>) = 1
   \<and> today_rows (demo_world (demo_settings\<lparr>auto_tp_sl_enabled := False\<rparr>) [demo_row 86399999]) ''u1'' = []
   \<and> calls (snd (executeTrade demo_platform
                    (demo_world (demo_settings\<lparr>auto_tp_sl_enabled := False\<rparr>) [demo_row 86399999])
                    demo_signal))
       = [OrderPost ''key''
            (''symbol=BTCUSDT&side=BUY&type=MARKET&quantity=1&timestamp=86399999''
             @ ''&signature=hmac(secret,''
             @ ''symbol=BTCUSDT&side=BUY&type=MARKET&quantity=1&timestamp=86399999'' @ '')'')]
   \<and> length (orders (snd (executeTrade demo_platform
                    (demo_world (demo_settings\<lparr>auto_tp_sl_enabled := False\<rparr>) [demo_row 86399999])
                    demo_signal))) = 2"
  by (simp add: eval_defs demo_defs)

subsection \<open>Auto trading disabled\<close>

text \<open>
  Claim C3: when the user's settings row has \<open>auto_trading_enabled\<close> false, the call
  fails with the configuration error of line 104, and it sends nothing to the exchange
  and writes nothing to the ledger.
\<close>

theorem C3_auto_trading_disabled:
  assumes "settings_of w (userId signal) = Some us" and "\<not> auto_trading_enabled us"
  shows "fst (executeTrade P w signal) = Inl (Error ''Auto trading is disabled for this user'')
       \<and> calls (snd (executeTrade P w signal)) = calls w
       \<and> orders (snd (executeTrade P w signal)) = orders w"
  using assms by (simp add: executeTrade_def console_def)

text \<open>The theorem at a user whose settings have auto trading off.\<close>

theorem C3_auto_trading_disabled_witness:
  "settings_of (demo_world (demo_settings\<lparr>auto_trading_enabled := False\<rparr>) [])
       (userId demo_signal)
     = Some (demo_settings\<lparr>auto_trading_enabled := False\<rparr>)
   \<and> \<not> auto_trading_enabled (demo_settings\<lparr>auto_trading_enabled := False\<rparr>)
   \<and> fst (executeTrade demo_platform
            (demo_world (demo_settings\<lparr>auto_trading_enabled := False\<rparr>) []) demo_signal)
       = Inl (Error ''Auto trading is disabled for this user'')
   \<and> calls (snd (executeTrade demo_platform
            (demo_world (demo_settings\<lparr>auto_trading_enabled := False\<rparr>) []) demo_signal)) = []
   \<and> orders (snd (executeTrade demo_platform
            (demo_world (demo_settings\<lparr>auto_trading_enabled := False\<rparr>) []) demo_signal)) = []"
  using C3_auto_trading_disabled
          [of "demo_world (demo_settings\<lparr>auto_trading_enabled := False\<rparr>) []" demo_signal
              "demo_settings\<lparr>auto_trading_enabled := False\<rparr>" demo_platform]
  by (simp add: demo_defs)

subsection \<open>Protective prices\<close>



text \<open>
  Claim C5 says that a per-call percentage is used whenever the request gives one, also
  when the given value is 0. On the code, a request that gives 0 for both percentages
  gets the levels of the account defaults 5 and 10, not those of 0 and 0.
\<close>

theorem C5_zero_percent_counterexample:
  "stopLossPercent (demo_signal\<lparr>stopLossPercent := Some 0, takeProfitPercent := Some 0\<rparr>) = Some 0
   \<and> takeProfitPercent (demo_signal\<lparr>stopLossPercent := Some 0, takeProfitPercent := Some 0\<rparr>) = Some 0
   \<and> protective_prices demo_platform demo_settings
        (demo_signal\<lparr>stopLossPercent := Some 0, takeProfitPercent := Some 0\<rparr>) demo_filled
       = (Some 95, Some 110)
   \<and> protective_prices demo_platform demo_settings
        (demo_signal\<lparr>stopLossPercent := Some 0, takeProfitPercent := Some 0\<rparr>) demo_filled
       \<noteq> spec_protective_levels BUY 100 0 0"
  by (simp add: protective_prices_def spec_protective_levels_def or_else_def demo_defs
        digits_value_def Let_def)

text \<open>
  Claim C5 as amended: the percentage used is the request's per-call value when it is
  given and not 0, and the account default when the per-call value is absent or 0; the
  levels are the specification's formula at the first fill's price and these two
  percentages.
\<close>

theorem C5_percent_selection:
  assumes "auto_tp_sl_enabled us"
    and "bo_fills bo = Some (f # fs)"
    and "slPct = (case stopLossPercent signal of
                    None \<Rightarrow> default_stop_loss_percent us
                  | Some v \<Rightarrow> if v = 0 then default_stop_loss_percent us else v)"
    and "tpPct = (case takeProfitPercent signal of
                    None \<Rightarrow> default_take_profit_percent us
                  | Some v \<Rightarrow> if v = 0 then default_take_profit_percent us else v)"
  shows "protective_prices P us signal bo
           = spec_protective_levels (side signal) (parseFloat P (fill_price f)) slPct tpPct"
  using assms
  by (cases "side signal")
     (simp_all add: protective_prices_def spec_protective_levels_def or_else_def Let_def)

text \<open>The theorem at a request that gives a stop-loss percentage of 3 and no take-profit.\<close>

theorem C5_percent_selection_witness:
  "auto_tp_sl_enabled demo_settings
   \<and> bo_fills demo_filled = Some [demo_fill]
   \<and> protective_prices demo_platform demo_settings
        (demo_signal\<lparr>stopLossPercent := Some 3\<rparr>) demo_filled
       = spec_protective_levels BUY 100 3 10
   \<and> spec_protective_levels BUY 100 3 10 = (Some 97, Some 110)"
proof -
  have h1: "auto_tp_sl_enabled demo_settings"
    by (simp add: demo_settings_def)
  have h2: "bo_fills demo_filled = Some (demo_fill # [])"
    by (simp add: demo_filled_def)
  have h3: "3 = (case stopLossPercent (demo_signal\<lparr>stopLossPercent := Some 3\<rparr>) of
                    None \<Rightarrow> default_stop_loss_percent demo_settings
                  | Some v \<Rightarrow> if v = 0 then default_stop_loss_percent demo_settings else v)"
    by (simp add: demo_signal_def)
  have h4: "10 = (case takeProfitPercent (demo_signal\<lparr>stopLossPercent := Some 3\<rparr>) of
                    None \<Rightarrow> default_take_profit_percent demo_settings
                  | Some v \<Rightarrow> if v = 0 then default_take_profit_percent demo_settings else v)"
    by (simp add: demo_signal_def demo_settings_def)
  have side: "side (demo_signal\<lparr>stopLossPercent := Some 3\<rparr>) = BUY"
    by (simp add: demo_signal_def)
  have avg: "parseFloat demo_platform (fill_price demo_fill) = 100"
    by (simp add: demo_platform_def demo_fill_def digits_value_def)
  have levels: "spec_protective_levels BUY 100 3 10 = (Some 97, Some 110)"
    by (simp add: spec_protective_levels_def)
  show ?thesis
    using C5_percent_selection [OF h1 h2 h3 h4, of demo_platform] h1 h2 levels
    unfolding side avg by simp
qed

subsection \<open>An order without fills\<close>

text \<open>
  Claim C6: for a BUY market order that the exchange accepts with no fills (the member
  is missing or the list is empty), the row handed to the ledger has both protective
  prices null and the protection flag copied from the settings, and the only request
  sent to the exchange is the primary order: the protective orders are never placed.
\<close>

theorem C6_no_fills_no_protection:
  assumes "settings_of w (userId signal) = Some us"
    and "auto_trading_enabled us"
    and "binance_api_key us = Some apiKey" and "apiKey \<noteq> []"
    and "binance_secret_key us = Some secret" and "secret \<noteq> []"
    and "today_select_fails w \<or> int (length (today_rows w (userId signal))) < max_daily_trades us"
    and "quantity signal * or_else (price signal) 0 \<le> max_position_size us"
    and "side signal = BUY" and "type signal = MARKET"
    and "binance_order w (order_body P secret (queryString P signal (now w))) = Responded resp"
    and "ok resp" and "json resp = Some bo"
    and "bo_fills bo = None \<or> bo_fills bo = Some []"
  shows "calls (snd (executeTrade P w signal))
           = calls w @ [OrderPost apiKey (order_body P secret (queryString P signal (now w)))]
       \<and> orders (snd (executeTrade P w signal))
           = (if insert_fails w (make_orderData P (now w) us signal bo None None) then orders w
              else orders w @ [\<lparr> row_id = length (orders w), created_at = now w,
                                 row_data = make_orderData P (now w) us signal bo None None \<rparr>])
       \<and> o_stop_loss_price (make_orderData P (now w) us signal bo None None) = None
       \<and> o_take_profit_price (make_orderData P (now w) us signal bo None None) = None
       \<and> o_auto_tp_sl_enabled (make_orderData P (now w) us signal bo None None)
           = auto_tp_sl_enabled us"
proof -
  have pp: "protective_prices P us signal bo = (None, None)"
    using assms(14) by (auto simp add: protective_prices_def)
  show ?thesis
    using assms(10-13) pp
    by (simp add: executeTrade_guards_pass [OF assms(1-8)] submit_order_def record_order_def
          console_def send_def Let_def make_orderData_def)
qed

text \<open>The theorem at an order that the exchange reports as NEW, without a fills member.\<close>

theorem C6_no_fills_no_protection_witness:
  "side demo_signal = BUY \<and> type demo_signal = MARKET
   \<and> binance_order demo_world_unfilled
        (order_body demo_platform ''secret'' (queryString demo_platform demo_signal 86399999))
       = Responded \<lparr> ok = True, status = 200, body_text = [], json = Some demo_new \<rparr>
   \<and> bo_fills demo_new = None
   \<and> auto_tp_sl_enabled demo_settings
   \<and> calls (snd (executeTrade demo_platform demo_world_unfilled demo_signal))
       = [OrderPost ''key''
            (order_body demo_platform ''secret'' (queryString demo_platform demo_signal 86399999))]
   \<and> map (\<lambda>r. (o_stop_loss_price (row_data r), o_take_profit_price (row_data r),
                 o_auto_tp_sl_enabled (row_data r)))
         (orders (snd (executeTrade demo_platform demo_world_unfilled demo_signal)))
       = [(None, None, True)]"
proof -
  have w: "settings_of demo_world_unfilled (userId demo_signal) = Some demo_settings"
    "calls demo_world_unfilled = []" "orders demo_world_unfilled = []"
    "now demo_world_unfilled = 86399999" "\<And>od. \<not> insert_fails demo_world_unfilled od"
    "\<And>body. binance_order demo_world_unfilled body
        = Responded \<lparr> ok = True, status = 200, body_text = [], json = Some demo_new \<rparr>"
    by (simp_all add: demo_world_unfilled_def demo_world_def demo_signal_def demo_accept_def)
  have us: "auto_trading_enabled demo_settings" "auto_tp_sl_enabled demo_settings"
    "binance_api_key demo_settings = Some ''key''" "''key'' \<noteq> []"
    "binance_secret_key demo_settings = Some ''secret''" "''secret'' \<noteq> []"
    by (simp_all add: demo_settings_def)
  have cap: "today_select_fails demo_world_unfilled
      \<or> int (length (today_rows demo_world_unfilled (userId demo_signal)))
          < max_daily_trades demo_settings"
    by (simp add: today_rows_def w(3) demo_settings_def)
  have size: "quantity demo_signal * or_else (price demo_signal) 0 \<le> max_position_size demo_settings"
    by (simp add: demo_signal_def demo_settings_def or_else_def)
  have sig: "side demo_signal = BUY" "type demo_signal = MARKET"
    by (simp_all add: demo_signal_def)
  have resp: "binance_order demo_world_unfilled
        (order_body demo_platform ''secret'' (queryString demo_platform demo_signal (now demo_world_unfilled)))
       = Responded \<lparr> ok = True, status = 200, body_text = [], json = Some demo_new \<rparr>"
    "ok \<lparr> ok = True, status = 200, body_text = [], json = Some demo_new \<rparr>"
    "json \<lparr> ok = True, status = 200, body_text = [], json = Some demo_new \<rparr> = Some demo_new"
    by (simp_all add: w(6))
  have nofills: "bo_fills demo_new = None \<or> bo_fills demo_new = Some []"
    by (simp add: demo_new_def)
  have nofill: "bo_fills demo_new = None"
    by (simp add: demo_new_def)
  show ?thesis
    using C6_no_fills_no_protection
            [OF w(1) us(1) us(3) us(4) us(5) us(6) cap size sig resp nofills, of ]
          sig w(6) nofill us(2)
    by (simp add: w(2-5))
qed

subsection \<open>Rejection by the exchange\<close>

text \<open>
  Claim C8: when the exchange answers the submission with a status that is not 2xx, the
  call fails with an error whose message carries the status and the body of the
  response, and the ledger is left as it was.
\<close>

theorem C8_exchange_rejection:
  assumes "settings_of w (userId signal) = Some us"
    and "auto_trading_enabled us"
    and "binance_api_key us = Some apiKey" and "apiKey \<noteq> []"
    and "binance_secret_key us = Some secret" and "secret \<noteq> []"
    and "today_select_fails w \<or> int (length (today_rows w (userId signal))) < max_daily_trades us"
    and "quantity signal * or_else (price signal) 0 \<le> max_position_size us"
    and "\<not> (truthy (price signal) \<and> type signal = LIMIT)"
    and "binance_order w (order_body P secret (queryString P signal (now w))) = Responded resp"
    and "\<not> ok resp"
  shows "fst (executeTrade P w signal)
           = Inl (Error (''Binance API error: '' @ number_toString P (of_nat (status resp))
                          @ '' '' @ body_text resp))
       \<and> orders (snd (executeTrade P w signal)) = orders w
       \<and> calls (snd (executeTrade P w signal))
           = calls w @ [OrderPost apiKey (order_body P secret (queryString P signal (now w)))]"
  using assms(9-11)
  by (simp add: executeTrade_guards_pass [OF assms(1-8)] submit_order_def console_def send_def Let_def)

text \<open>The theorem at an exchange that answers 400.\<close>

theorem C8_exchange_rejection_witness:
  "binance_order demo_world_rejecting
        (order_body demo_platform ''secret'' (queryString demo_platform demo_signal 86399999))
       = Responded \<lparr> ok = False, status = 400, body_text = ''Filter failure: LOT_SIZE'',
                       json = None \<rparr>
   \<and> fst (executeTrade demo_platform demo_world_rejecting demo_signal)
       = Inl (Error ''Binance API error: 400 Filter failure: LOT_SIZE'')
   \<and> orders (snd (executeTrade demo_platform demo_world_rejecting demo_signal)) = []
   \<and> calls (snd (executeTrade demo_platform demo_world_rejecting demo_signal))
       = [OrderPost ''key''
            (order_body demo_platform ''secret'' (queryString demo_platform demo_signal 86399999))]"
proof -
  have w: "settings_of demo_world_rejecting (userId demo_signal) = Some demo_settings"
    "calls demo_world_rejecting = []" "orders demo_world_rejecting = []"
    "now demo_world_rejecting = 86399999"
    "\<And>body. binance_order demo_world_rejecting body
        = Responded \<lparr> ok = False, status = 400, body_text = ''Filter failure: LOT_SIZE'',
                        json = None \<rparr>"
    by (simp_all add: demo_world_rejecting_def demo_world_def demo_signal_def demo_reject_def)
  have us: "auto_trading_enabled demo_settings"
    "binance_api_key demo_settings = Some ''key''" "''key'' \<noteq> []"
    "binance_secret_key demo_settings = Some ''secret''" "''secret'' \<noteq> []"
    by (simp_all add: demo_settings_def)
  have cap: "today_select_fails demo_world_rejecting
      \<or> int (length (today_rows demo_world_rejecting (userId demo_signal)))
          < max_daily_trades demo_settings"
    by (simp add: today_rows_def w(3) demo_settings_def)
  have size: "quantity demo_signal * or_else (price demo_signal) 0 \<le> max_position_size demo_settings"
    by (simp add: demo_signal_def demo_settings_def or_else_def)
  have market: "\<not> (truthy (price demo_signal) \<and> type demo_signal = LIMIT)"
    by (simp add: demo_signal_def)
  have resp: "binance_order demo_world_rejecting
        (order_body demo_platform ''secret'' (queryString demo_platform demo_signal (now demo_world_rejecting)))
       = Responded \<lparr> ok = False, status = 400, body_text = ''Filter failure: LOT_SIZE'',
                       json = None \<rparr>"
    "\<not> ok \<lparr> ok = False, status = 400, body_text = ''Filter failure: LOT_SIZE'', json = None \<rparr>"
    by (simp_all add: w(5))
  have shown: "number_toString demo_platform (of_nat 400) = ''400''"
    by (simp add: demo_platform_def decimal.simps)
  show ?thesis
    using C8_exchange_rejection [OF w(1) us cap size market resp, of ] w(5) shown
    by (simp add: w(2-4))
qed

subsection \<open>A failed count of today's orders\<close>

text \<open>
  Claim C9: when the query that counts today's orders comes back with an error, the
  error is logged, the daily limit is not checked and the order is submitted, whatever
  the ledger holds.
\<close>

theorem C9_failed_count_query_skips_limit:
  assumes "settings_of w (userId signal) = Some us"
    and "auto_trading_enabled us"
    and "binance_api_key us = Some apiKey" and "apiKey \<noteq> []"
    and "binance_secret_key us = Some secret" and "secret \<noteq> []"
    and "today_select_fails w"
    and "quantity signal * or_else (price signal) 0 \<le> max_position_size us"
    and "\<not> (truthy (price signal) \<and> type signal = LIMIT)"
  shows "(\<exists>rest. calls (snd (executeTrade P w signal))
            = calls w @ OrderPost apiKey (order_body P secret (queryString P signal (now w))) # rest)
       \<and> ''Error checking daily trades:'' \<in> set (logs (snd (executeTrade P w signal)))"
proof -
  let ?w1 = "console ''Error checking daily trades:'' (console ''Executing trade signal:'' w)"
  have run: "executeTrade P w signal = submit_order P ?w1 us apiKey secret signal"
    using executeTrade_guards_pass [OF assms(1-6) _ assms(8), of P] assms(7) by simp
  have "\<exists>rest. calls (snd (submit_order P ?w1 us apiKey secret signal))
          = calls ?w1 @ OrderPost apiKey (order_body P secret (queryString P signal (now ?w1))) # rest"
    by (rule submit_order_calls [OF assms(9)])
  moreover have "''Error checking daily trades:'' \<in> set (logs ?w1)"
    by (simp add: console_def)
  ultimately show ?thesis
    using submit_order_logs [of ?w1 P us apiKey secret signal] run
    by (auto simp add: console_def)
qed

text \<open>
  The theorem at a user whose cap is one trade and who has one order today: the query
  fails and the second order is submitted.
\<close>

theorem C9_failed_count_query_skips_limit_witness:
  "today_select_fails demo_world_count_fails
   \<and> max_daily_trades demo_settings = 1
   \<and> length (today_rows demo_world_count_fails ''u1'') = 1
   \<and> (\<exists>rest. calls (snd (executeTrade demo_platform demo_world_count_fails demo_signal))
          = OrderPost ''key''
              (order_body demo_platform ''secret'' (queryString demo_platform demo_signal 86399999))
            # rest)
   \<and> ''Error checking daily trades:''
        \<in> set (logs (snd (executeTrade demo_platform demo_world_count_fails demo_signal)))"
proof -
  have w: "settings_of demo_world_count_fails (userId demo_signal) = Some demo_settings"
    "calls demo_world_count_fails = []" "now demo_world_count_fails = 86399999"
    "today_select_fails demo_world_count_fails"
    by (simp_all add: demo_world_count_fails_def demo_world_def demo_signal_def)
  have us: "auto_trading_enabled demo_settings"
    "binance_api_key demo_settings = Some ''key''" "''key'' \<noteq> []"
    "binance_secret_key demo_settings = Some ''secret''" "''secret'' \<noteq> []"
    by (simp_all add: demo_settings_def)
  have size: "quantity demo_signal * or_else (price demo_signal) 0 \<le> max_position_size demo_settings"
    by (simp add: demo_signal_def demo_settings_def or_else_def)
  have market: "\<not> (truthy (price demo_signal) \<and> type demo_signal = LIMIT)"
    by (simp add: demo_signal_def)
  have cap: "max_daily_trades demo_settings = 1"
    by (simp add: demo_settings_def)
  have count: "length (today_rows demo_world_count_fails ''u1'') = 1"
    by (simp add: today_rows_def today_gte_bound_def today_lt_bound_def today_start_def
          ms_per_day_def demo_world_count_fails_def demo_world_def demo_row_def)
  show ?thesis
    using C9_failed_count_query_skips_limit [OF w(1) us w(4) size market, of demo_platform]
          w(4) cap count
    by (simp add: w(2,3))
qed

section \<open>Properties of checkTakeProfitStopLoss\<close>

subsection \<open>The trigger\<close>

text \<open>
  Claim C7: for a position with both levels set, the exit that a price triggers is the
  one of the specification (stop-loss first, then take-profit, in the direction of the
  original side), and the loop body runs at most one closing trade for the position:
  none when nothing triggers, one call of executeTrade otherwise.
\<close>

theorem C7_trigger_rule:
  assumes "o_side (row_data position) = side_str sd"
    and "o_stop_loss_price (row_data position) = Some sl"
    and "o_take_profit_price (row_data position) = Some tp"
    and "ticker_price w (o_symbol (row_data position)) = TickerPrice p"
    and "cp = parseFloat P p"
  shows "trigger_of position cp = spec_trigger sd cp sl tp
       \<and> process_position P w uid position =
           (case spec_trigger sd cp sl tp of
              None \<Rightarrow> (None, send (TickerGet (o_symbol (row_data position))) w)
            | Some t \<Rightarrow>
                (case executeTrade P (send (TickerGet (o_symbol (row_data position))) w)
                        (closeSignal position uid) of
                   (Inl e, w2) \<Rightarrow>
                     (Some (Failed (row_id position) (message e)),
                      console ''Error processing position'' w2)
                 | (Inr closeResult, w2) \<Rightarrow>
                     (Some (Closed (row_id position) t cp closeResult), w2)))"
proof -
  have t: "trigger_of position cp = spec_trigger sd cp sl tp"
    using assms(1-3) by (cases sd) (simp_all add: trigger_of_def spec_trigger_def null_num_def)
  show ?thesis
    using assms(4) t unfolding assms(5) by (simp add: process_position_def Let_def)
qed

text \<open>
  The theorem at a BUY with levels 95 and 110 and a price of 90; the last conjunct is
  a case where both conditions hold at once.
\<close>

theorem C7_trigger_rule_witness:
  "o_side (row_data (demo_row 5000)) = side_str BUY
   \<and> o_stop_loss_price (row_data (demo_row 5000)) = Some 95
   \<and> o_take_profit_price (row_data (demo_row 5000)) = Some 110
   \<and> ticker_price (demo_world demo_settings [demo_row 5000]) (o_symbol (row_data (demo_row 5000)))
       = TickerPrice ''90''
   \<and> parseFloat demo_platform ''90'' = 90
   \<and> trigger_of (demo_row 5000) 90 = spec_trigger BUY 90 95 110
   \<and> spec_trigger BUY 90 95 110 = Some STOP_LOSS
   \<and> spec_trigger BUY 120 95 110 = Some TAKE_PROFIT
   \<and> spec_trigger BUY 100 95 110 = None
   \<and> spec_trigger BUY 90 95 80 = Some STOP_LOSS"
proof -
  have h1: "o_side (row_data (demo_row 5000)) = side_str BUY"
    and h2: "o_stop_loss_price (row_data (demo_row 5000)) = Some 95"
    and h3: "o_take_profit_price (row_data (demo_row 5000)) = Some 110"
    by (simp_all add: demo_row_def)
  have h4: "ticker_price (demo_world demo_settings [demo_row 5000])
              (o_symbol (row_data (demo_row 5000))) = TickerPrice ''90''"
    by (simp add: demo_world_def)
  have h5: "90 = parseFloat demo_platform ''90''"
    by (simp add: demo_platform_def digits_value_def)
  have spec: "spec_trigger BUY 90 95 110 = Some STOP_LOSS"
    "spec_trigger BUY 120 95 110 = Some TAKE_PROFIT"
    "spec_trigger BUY 100 95 110 = None"
    "spec_trigger BUY 90 95 80 = Some STOP_LOSS"
    by (simp_all add: spec_trigger_def)
  from C7_trigger_rule [OF h1 h2 h3 h4 h5, THEN conjunct1] h1 h2 h3 h4 h5 [symmetric] spec
  show ?thesis
    by blast
qed

subsection \<open>Closing trades and the checks of executeTrade\<close>

lemma today_rows_same_db: "same_db w w' \<Longrightarrow> today_rows w' uid = today_rows w uid"
  by (simp add: same_db_def today_rows_def)

lemma executeTrade_refused:
  assumes "settings_of w (userId signal) = Some us"
    and "(\<not> auto_trading_enabled us \<and> msg = ''Auto trading is disabled for this user'')
       \<or> (auto_trading_enabled us \<and> \<not> falsy_str (binance_api_key us)
            \<and> \<not> falsy_str (binance_secret_key us) \<and> \<not> today_select_fails w
            \<and> max_daily_trades us \<le> int (length (today_rows w (userId signal)))
            \<and> msg = ''Daily trade limit reached'')"
  shows "executeTrade P w signal = (Inl (Error msg), console ''Executing trade signal:'' w)"
  using assms
  by (auto simp add: executeTrade_def console_def todayTrades_def today_rows_def)

lemma process_position_refused:
  assumes "same_db w w'"
    and "settings_of w uid = Some us"
    and "(\<not> auto_trading_enabled us \<and> msg = ''Auto trading is disabled for this user'')
       \<or> (auto_trading_enabled us \<and> \<not> falsy_str (binance_api_key us)
            \<and> \<not> falsy_str (binance_secret_key us) \<and> \<not> today_select_fails w
            \<and> max_daily_trades us \<le> int (length (today_rows w uid))
            \<and> msg = ''Daily trade limit reached'')"
  shows "fst (process_position P w' uid position) = refused_outcome P w msg position
       \<and> same_db w (snd (process_position P w' uid position))
       \<and> calls (snd (process_position P w' uid position))
           = calls w' @ [TickerGet (o_symbol (row_data position))]"
proof -
  let ?w1 = "send (TickerGet (o_symbol (row_data position))) w'"
  have db1: "same_db w ?w1"
    using assms(1) by (simp add: same_db_def send_def)
  have "executeTrade P ?w1 (closeSignal position uid)
          = (Inl (Error msg), console ''Executing trade signal:'' ?w1)"
  proof (rule executeTrade_refused)
    show "settings_of ?w1 (userId (closeSignal position uid)) = Some us"
      using db1 assms(2) by (simp add: same_db_def closeSignal_def)
    show "(\<not> auto_trading_enabled us \<and> msg = ''Auto trading is disabled for this user'')
       \<or> (auto_trading_enabled us \<and> \<not> falsy_str (binance_api_key us)
            \<and> \<not> falsy_str (binance_secret_key us) \<and> \<not> today_select_fails ?w1
            \<and> max_daily_trades us \<le> int (length (today_rows ?w1 (userId (closeSignal position uid))))
            \<and> msg = ''Daily trade limit reached'')"
      using assms(3) today_rows_same_db [OF db1, of uid] db1
      by (simp add: same_db_def closeSignal_def)
  qed
  then show ?thesis
    using assms(1)
    by (simp add: process_position_def refused_outcome_def same_db_def send_def console_def Let_def
          split: ticker_result.splits option.splits)
qed

lemma process_positions_refused:
  assumes "settings_of w uid = Some us"
    and "(\<not> auto_trading_enabled us \<and> msg = ''Auto trading is disabled for this user'')
       \<or> (auto_trading_enabled us \<and> \<not> falsy_str (binance_api_key us)
            \<and> \<not> falsy_str (binance_secret_key us) \<and> \<not> today_select_fails w
            \<and> max_daily_trades us \<le> int (length (today_rows w uid))
            \<and> msg = ''Daily trade limit reached'')"
  shows "same_db w w' \<Longrightarrow>
         fst (process_positions P w' uid ps) = List.map_filter (refused_outcome P w msg) ps
       \<and> same_db w (snd (process_positions P w' uid ps))
       \<and> calls (snd (process_positions P w' uid ps))
           = calls w' @ map (\<lambda>p. TickerGet (o_symbol (row_data p))) ps"
proof (induction ps arbitrary: w')
  case Nil
  then show ?case by simp
next
  case (Cons position rest)
  obtain r w1 where step: "process_position P w' uid position = (r, w1)"
    by (cases "process_position P w' uid position")
  have one: "r = refused_outcome P w msg position" "same_db w w1"
    "calls w1 = calls w' @ [TickerGet (o_symbol (row_data position))]"
    using process_position_refused [OF Cons.prems assms, of P position] step by simp_all
  obtain rs w2 where more: "process_positions P w1 uid rest = (rs, w2)"
    by (cases "process_positions P w1 uid rest")
  have ih: "rs = List.map_filter (refused_outcome P w msg) rest" "same_db w w2"
    "calls w2 = calls w1 @ map (\<lambda>p. TickerGet (o_symbol (row_data p))) rest"
    using Cons.IH [OF one(2)] more by simp_all
  show ?case
    using step more one ih by (simp split: option.splits)
qed

text \<open>
  Claim C10: a closing trade goes through executeTrade and meets its checks. When
  protection is on and auto trading is off, or when the daily cap is reached, every
  exit that triggers is reported as a failure with the message of that check, no order is sent
  to the exchange (the only requests are the ticker reads), and the ledger and the set
  of open positions are unchanged.
\<close>

theorem C10_closing_trades_meet_the_guards:
  assumes "settings_of w uid = Some us"
    and "auto_tp_sl_enabled us"
    and "\<not> positions_select_fails w"
    and "(\<not> auto_trading_enabled us \<and> msg = ''Auto trading is disabled for this user'')
       \<or> (auto_trading_enabled us \<and> \<not> falsy_str (binance_api_key us)
            \<and> \<not> falsy_str (binance_secret_key us) \<and> \<not> today_select_fails w
            \<and> max_daily_trades us \<le> int (length (today_rows w uid))
            \<and> msg = ''Daily trade limit reached'')"
  shows "fst (checkTakeProfitStopLoss P w uid)
           = Inr (Results (List.map_filter (refused_outcome P w msg) (open_positions w uid)))
       \<and> orders (snd (checkTakeProfitStopLoss P w uid)) = orders w
       \<and> open_positions (snd (checkTakeProfitStopLoss P w uid)) uid = open_positions w uid
       \<and> calls (snd (checkTakeProfitStopLoss P w uid))
           = calls w @ map (\<lambda>p. TickerGet (o_symbol (row_data p))) (open_positions w uid)"
proof -
  have db: "same_db w w" by (simp add: same_db_def)
  obtain rs w' where run: "process_positions P w uid (open_positions w uid) = (rs, w')"
    by (cases "process_positions P w uid (open_positions w uid)")
  have "rs = List.map_filter (refused_outcome P w msg) (open_positions w uid)"
    and "same_db w w'"
    and "calls w' = calls w @ map (\<lambda>p. TickerGet (o_symbol (row_data p))) (open_positions w uid)"
    using process_positions_refused [OF assms(1,4) db, of P "open_positions w uid"] run by simp_all
  then show ?thesis
    using assms(1-3) run
    by (simp add: checkTakeProfitStopLoss_def same_db_def open_positions_def)
qed

text \<open>
  The theorem at one open position whose stop-loss has triggered, first with auto
  trading off, then with the daily cap reached.
\<close>

theorem C10_closing_trades_meet_the_guards_witness:
  "auto_tp_sl_enabled demo_settings_trading_off
   \<and> \<not> auto_trading_enabled demo_settings_trading_off
   \<and> open_positions demo_world_trading_off ''u1'' = [demo_row 5000]
   \<and> trigger_of (demo_row 5000) (parseFloat demo_platform ''90'') = Some STOP_LOSS
   \<and> fst (checkTakeProfitStopLoss demo_platform demo_world_trading_off ''u1'')
       = Inr (Results [Failed 0 ''Auto trading is disabled for this user''])
   \<and> orders (snd (checkTakeProfitStopLoss demo_platform demo_world_trading_off ''u1''))
       = [demo_row 5000]
   \<and> calls (snd (checkTakeProfitStopLoss demo_platform demo_world_trading_off ''u1''))
       = [TickerGet ''BTCUSDT'']
   \<and> fst (checkTakeProfitStopLoss demo_platform (demo_world demo_settings [demo_row 5000]) ''u1'')
       = Inr (Results [Failed 0 ''Daily trade limit reached''])
   \<and> calls (snd (checkTakeProfitStopLoss demo_platform (demo_world demo_settings [demo_row 5000]) ''u1''))
       = [TickerGet ''BTCUSDT'']"
proof -
  let ?off = "''Auto trading is disabled for this user''"
  let ?cap = "''Daily trade limit reached''"
  let ?w = "demo_world demo_settings [demo_row 5000]"
  have w: "settings_of demo_world_trading_off ''u1'' = Some demo_settings_trading_off"
    "\<not> positions_select_fails demo_world_trading_off"
    "calls demo_world_trading_off = []" "orders demo_world_trading_off = [demo_row 5000]"
    "ticker_price demo_world_trading_off ''BTCUSDT'' = TickerPrice ''90''"
    by (simp_all add: demo_world_trading_off_def demo_world_def)
  have us: "auto_tp_sl_enabled demo_settings_trading_off"
    "\<not> auto_trading_enabled demo_settings_trading_off"
    by (simp_all add: demo_settings_trading_off_def demo_settings_def)
  have off: "(\<not> auto_trading_enabled demo_settings_trading_off \<and> ?off = ?off)
       \<or> (auto_trading_enabled demo_settings_trading_off
            \<and> \<not> falsy_str (binance_api_key demo_settings_trading_off)
            \<and> \<not> falsy_str (binance_secret_key demo_settings_trading_off)
            \<and> \<not> today_select_fails demo_world_trading_off
            \<and> max_daily_trades demo_settings_trading_off
                \<le> int (length (today_rows demo_world_trading_off ''u1''))
            \<and> ?off = ''Daily trade limit reached'')"
    using us(2) by simp
  have pos: "open_positions demo_world_trading_off ''u1'' = [demo_row 5000]"
    by (simp add: open_positions_def w(4)) (simp add: demo_row_def)
  have trig: "trigger_of (demo_row 5000) (parseFloat demo_platform ''90'') = Some STOP_LOSS"
    by (simp add: trigger_of_def null_num_def demo_row_def demo_platform_def digits_value_def)
  have sym: "o_symbol (row_data (demo_row 5000)) = ''BTCUSDT''" "row_id (demo_row 5000) = 0"
    by (simp_all add: demo_row_def)
  have out: "refused_outcome demo_platform demo_world_trading_off m (demo_row 5000)
               = Some (Failed 0 m)" for m
    by (simp add: refused_outcome_def sym w(5) trig)
  have w2: "settings_of ?w ''u1'' = Some demo_settings" "\<not> positions_select_fails ?w"
    "calls ?w = []" "orders ?w = [demo_row 5000]" "\<not> today_select_fails ?w"
    "ticker_price ?w ''BTCUSDT'' = TickerPrice ''90''"
    by (simp_all add: demo_world_def)
  have us2: "auto_tp_sl_enabled demo_settings" "auto_trading_enabled demo_settings"
    "\<not> falsy_str (binance_api_key demo_settings)" "\<not> falsy_str (binance_secret_key demo_settings)"
    "max_daily_trades demo_settings = 1"
    by (simp_all add: demo_settings_def falsy_str_def)
  have count: "length (today_rows ?w ''u1'') = 1"
    by (simp add: today_rows_def today_gte_bound_def today_lt_bound_def today_start_def
          ms_per_day_def demo_world_def demo_row_def)
  have capped: "(\<not> auto_trading_enabled demo_settings \<and> ?cap = ''Auto trading is disabled for this user'')
       \<or> (auto_trading_enabled demo_settings
            \<and> \<not> falsy_str (binance_api_key demo_settings)
            \<and> \<not> falsy_str (binance_secret_key demo_settings)
            \<and> \<not> today_select_fails ?w
            \<and> max_daily_trades demo_settings \<le> int (length (today_rows ?w ''u1''))
            \<and> ?cap = ?cap)"
    using us2 w2(5) count by simp
  have pos2: "open_positions ?w ''u1'' = [demo_row 5000]"
    by (simp add: open_positions_def w2(4)) (simp add: demo_row_def)
  have out2: "refused_outcome demo_platform ?w m (demo_row 5000) = Some (Failed 0 m)" for m
    by (simp add: refused_outcome_def sym w2(6) trig)
  have first: "fst (checkTakeProfitStopLoss demo_platform demo_world_trading_off ''u1'')
       = Inr (Results [Failed 0 ?off])
     \<and> orders (snd (checkTakeProfitStopLoss demo_platform demo_world_trading_off ''u1''))
       = [demo_row 5000]
     \<and> calls (snd (checkTakeProfitStopLoss demo_platform demo_world_trading_off ''u1''))
       = [TickerGet ''BTCUSDT'']"
    using C10_closing_trades_meet_the_guards [OF w(1) us(1) w(2) off, of demo_platform]
    by (simp add: pos out sym w(3,4))
  have second: "fst (checkTakeProfitStopLoss demo_platform ?w ''u1'')
       = Inr (Results [Failed 0 ?cap])
     \<and> calls (snd (checkTakeProfitStopLoss demo_platform ?w ''u1'')) = [TickerGet ''BTCUSDT'']"
    using C10_closing_trades_meet_the_guards [OF w2(1) us2(1) w2(2) capped, of demo_platform]
    by (simp add: pos2 out2 sym w2(3,4))
  from first second us pos trig show ?thesis
    by blast
qed

end
